theory Spec2Isabelle
  imports Complex_Main "HOL-Library.Log_Nat"
begin

section \<open>The platform the component runs on\<close>

text \<open>
  \<^verbatim>\<open>src/App.tsx\<close> is one React component, \<^verbatim>\<open>App\<close>, with the hook \<^verbatim>\<open>useDarkMode\<close> and
  the sub-views \<^verbatim>\<open>PriceTag\<close> and \<^verbatim>\<open>CardSkeleton\<close>. Everything it touches outside its own
  state is made explicit here: the browser's storage and document root, the build-time
  environment, and the outcome of the one HTTP call. A JavaScript exception is a value
  of \<open>exn\<close>; a function that can throw returns \<open>exn + 'a\<close>.
\<close>

datatype exn = DOMException | TypeError | AxiosError

text \<open>
  \<^verbatim>\<open>localStorage\<close>: a string-keyed store. A browser may refuse access (blocked site data:
  reading throws) or refuse a write (quota exhausted, private mode: \<^verbatim>\<open>setItem\<close> throws);
  both are \<^verbatim>\<open>DOMException\<close>s. \<^verbatim>\<open>getItem\<close> of a missing key is \<^verbatim>\<open>null\<close>, here \<open>None\<close>.
\<close>

record storage =
  entries :: "string \<rightharpoonup> string"
  readable :: bool
  writable :: bool

definition getItem :: "storage \<Rightarrow> string \<Rightarrow> exn + string option" where
  "getItem st k = (if readable st then Inr (entries st k) else Inl DOMException)"

definition setItem :: "storage \<Rightarrow> string \<Rightarrow> string \<Rightarrow> exn + storage" where
  "setItem st k v =
     (if writable st then Inr (st\<lparr>entries := (entries st)(k \<mapsto> v)\<rparr>) else Inl DOMException)"

text \<open>
  The browser as \<^verbatim>\<open>useDarkMode\<close> sees it: the storage, the result of
  \<^verbatim>\<open>window.matchMedia('(prefers-color-scheme: dark)').matches\<close> (\<open>None\<close> when
  \<^verbatim>\<open>window.matchMedia\<close> is undefined), and the class list of \<^verbatim>\<open>document.documentElement\<close>.
  \<open>NoWindow\<close> is the context in which \<^verbatim>\<open>typeof window === 'undefined'\<close>; it has no
  storage and no document.
\<close>

record browser =
  localStorage :: storage
  matchMedia :: "bool option"
  classList :: "string set"

datatype window = NoWindow | Window browser

section \<open>useDarkMode\<close>

text \<open>
  The initialiser of \<^verbatim>\<open>useState<boolean>\<close> (lines 38 to 43):
  \<^verbatim>\<open>
    if (typeof window === 'undefined') return false;
    const saved = localStorage.getItem('theme');
    if (saved) return saved === 'dark';
    return window.matchMedia && window.matchMedia('(prefers-color-scheme: dark)').matches;
  \<close>
  \<^verbatim>\<open>if (saved)\<close> tests truthiness: \<^verbatim>\<open>null\<close> and the empty string are both falsy. Where
  \<^verbatim>\<open>window.matchMedia\<close> is undefined the last line returns \<^verbatim>\<open>undefined\<close>; every later use
  of \<^verbatim>\<open>isDark\<close> (\<^verbatim>\<open>if (isDark)\<close>, \<^verbatim>\<open>!isDark\<close>, \<^verbatim>\<open>isDark ? :\<close>) only tests its truthiness, so
  the model returns \<open>False\<close> for it. There is no \<^verbatim>\<open>try\<close> around the storage read.
\<close>

definition truthy_string :: "string option \<Rightarrow> bool" where
  "truthy_string s = (case s of None \<Rightarrow> False | Some v \<Rightarrow> v \<noteq> [])"

definition prefers_dark :: "browser \<Rightarrow> bool" where
  "prefers_dark b = (case matchMedia b of None \<Rightarrow> False | Some m \<Rightarrow> m)"

fun useDarkMode_init :: "window \<Rightarrow> exn + bool" where
  "useDarkMode_init NoWindow = Inr False"
| "useDarkMode_init (Window b) =
     (case getItem (localStorage b) ''theme'' of
        Inl e \<Rightarrow> Inl e
      | Inr saved \<Rightarrow>
          if truthy_string saved then Inr (saved = Some ''dark'')
          else Inr (prefers_dark b))"

text \<open>
  The effect of lines 45 to 54, run after the first render and after every change of
  \<^verbatim>\<open>isDark\<close>. It changes the class list first and writes the storage second, with no
  \<^verbatim>\<open>try\<close>: when the write throws, the class list has already changed. The result is the
  exception, if any, and the browser as the effect leaves it.
\<close>

definition useDarkMode_effect :: "bool \<Rightarrow> browser \<Rightarrow> exn option \<times> browser" where
  "useDarkMode_effect isDark b =
     (if isDark then
        (let b1 = b\<lparr>classList := insert ''dark'' (classList b)\<rparr> in
         case setItem (localStorage b1) ''theme'' ''dark'' of
           Inl e \<Rightarrow> (Some e, b1)
         | Inr st \<Rightarrow> (None, b1\<lparr>localStorage := st\<rparr>))
      else
        (let b1 = b\<lparr>classList := classList b - {''dark''}\<rparr> in
         case setItem (localStorage b1) ''theme'' ''light'' of
           Inl e \<Rightarrow> (Some e, b1)
         | Inr st \<Rightarrow> (None, b1\<lparr>localStorage := st\<rparr>)))"

text \<open>
  A mounted hook: the in-memory flag and the browser it has acted on. The first render
  runs the initialiser and touches nothing; the effect runs after it. The button's
  \<^verbatim>\<open>onClick\<close> (line 92) calls \<^verbatim>\<open>setIsDark(!isDark)\<close>, which changes the flag, and the
  effect runs again after the render that follows. An exception in the initialiser or in
  the effect leaves no mounted component.
\<close>

record theme_state =
  isDark :: bool
  page :: browser

definition first_render :: "browser \<Rightarrow> exn + theme_state" where
  "first_render b =
     (case useDarkMode_init (Window b) of
        Inl e \<Rightarrow> Inl e
      | Inr d \<Rightarrow> Inr \<lparr>isDark = d, page = b\<rparr>)"

definition run_effect :: "bool \<Rightarrow> browser \<Rightarrow> exn + theme_state" where
  "run_effect d b =
     (case useDarkMode_effect d b of
        (Some e, _) \<Rightarrow> Inl e
      | (None, b') \<Rightarrow> Inr \<lparr>isDark = d, page = b'\<rparr>)"

definition commit :: "theme_state \<Rightarrow> exn + theme_state" where
  "commit s = run_effect (isDark s) (page s)"

definition mount_theme :: "browser \<Rightarrow> exn + theme_state" where
  "mount_theme b = (case first_render b of Inl e \<Rightarrow> Inl e | Inr s \<Rightarrow> commit s)"

definition setIsDark :: "bool \<Rightarrow> theme_state \<Rightarrow> theme_state" where
  "setIsDark v s = s\<lparr>isDark := v\<rparr>"

definition onClick :: "theme_state \<Rightarrow> exn + theme_state" where
  "onClick s = commit (setIsDark (\<not> isDark s) s)"

fun clicks :: "nat \<Rightarrow> exn + theme_state \<Rightarrow> exn + theme_state" where
  "clicks 0 r = r"
| "clicks (Suc n) r = clicks n (case r of Inl e \<Rightarrow> Inl e | Inr s \<Rightarrow> onClick s)"

text \<open>
  The three copies of the theme agree: the \<^verbatim>\<open>dark\<close> class on the document root, the
  stored \<^verbatim>\<open>theme\<close> entry and the in-memory flag.
\<close>

definition theme_name :: "bool \<Rightarrow> string" where
  "theme_name d = (if d then ''dark'' else ''light'')"

definition in_sync :: "theme_state \<Rightarrow> bool" where
  "in_sync s \<longleftrightarrow>
     (''dark'' \<in> classList (page s)) = isDark s \<and>
     entries (localStorage (page s)) ''theme'' = Some (theme_name (isDark s))"

section \<open>Numbers and their text\<close>

text \<open>
  A JavaScript number is an IEEE binary64 value. The model carries the exact value of a
  finite one as a rational: comparison with zero and \<^verbatim>\<open>toFixed\<close>, as ECMA-262 defines
  them, are functions of that exact value. \<open>JSON_number x\<close> is the number a JSON literal
  of exact value \<open>x\<close> parses to: with \<open>k\<close> the binary exponent of the magnitude \<open>a\<close>
  (\<open>2^(k-1) \<le> a < 2^k\<close>), the nearest multiple of \<open>2^(k-53)\<close>, ties to the even
  multiple; \<open>None\<close> outside the normal range (below \<open>2^-1022\<close>, or rounding up to
  \<open>2^1024\<close>: the parser gives a subnormal or an infinity there, which this model does
  not carry).
\<close>

definition pow2 :: "int \<Rightarrow> rat" where
  "pow2 e = (if 0 \<le> e then 2 ^ nat e else 1 / 2 ^ nat (- e))"

definition round_half_even :: "rat \<Rightarrow> int" where
  "round_half_even x =
     (let n = \<lfloor>x\<rfloor>; r = x - of_int n
      in if r < 1 / 2 then n else if 1 / 2 < r then n + 1 else if even n then n else n + 1)"

definition JSON_number :: "rat \<Rightarrow> rat option" where
  "JSON_number x =
     (if x = 0 then Some 0
      else
        let a = \<bar>x\<bar>;
            e0 = bitlen (fst (quotient_of a)) - bitlen (snd (quotient_of a));
            k = (if pow2 e0 \<le> a then e0 + 1 else e0);
            ulp = pow2 (k - 53);
            m = round_half_even (a / ulp)
        in if k < - 1021 \<or> 1024 < k \<or> (k = 1024 \<and> m = 2 ^ 53) then None
           else Some (if x < 0 then - (of_int m * ulp) else of_int m * ulp))"

text \<open>The decimal digits of a natural number, most significant first.\<close>

definition digit :: "nat \<Rightarrow> char" where
  "digit d = ''0123456789'' ! d"

fun decimal :: "nat \<Rightarrow> string" where
  "decimal n = (if n < 10 then [digit n] else decimal (n div 10) @ [digit (n mod 10)])"

declare decimal.simps [simp del]

text \<open>
  \<^verbatim>\<open>Number.prototype.toString\<close>: an integer of magnitude below \<open>2^53\<close> prints as its
  decimal digits. Any other value prints as the shortest digit string that reads back to
  the same binary64 value, which is not a function of the exact value alone; that part is
  the parameter \<open>numstr\<close> throughout.
\<close>

definition Number_toString :: "(rat \<Rightarrow> string) \<Rightarrow> rat \<Rightarrow> string" where
  "Number_toString numstr x =
     (if x = of_int \<lfloor>x\<rfloor> \<and> \<bar>x\<bar> < 2 ^ 53
      then (if x < 0 then ''-'' else []) @ decimal (nat \<bar>\<lfloor>x\<rfloor>\<bar>)
      else numstr x)"

text \<open>
  \<^verbatim>\<open>Number.prototype.toFixed(f)\<close> on a finite number \<open>x\<close>, after ECMA-262: a negative
  \<open>x\<close> gives the sign \<^verbatim>\<open>-\<close> and is negated; from \<open>10^21\<close> on the result is that of
  \<^verbatim>\<open>toString\<close>; otherwise \<open>n\<close> is the integer for which \<open>n / 10^f - x\<close> is closest to
  zero, the larger one of two, its digits are padded with zeros on the left to \<open>f + 1\<close>
  characters, and a point is put before the last \<open>f\<close>.
\<close>

definition toFixed :: "(rat \<Rightarrow> string) \<Rightarrow> rat \<Rightarrow> nat \<Rightarrow> string" where
  "toFixed numstr x f =
     (let s = (if x < 0 then ''-'' else []); a = \<bar>x\<bar>
      in if 10 ^ 21 \<le> a then s @ Number_toString numstr a
         else
           let n = nat \<lfloor>a * 10 ^ f + 1 / 2\<rfloor>;
               m = decimal n;
               m = (if f \<noteq> 0 \<and> length m \<le> f
                    then replicate (f + 1 - length m) (CHR ''0'') @ m else m)
           in s @ (if f \<noteq> 0 then take (length m - f) m @ ''.'' @ drop (length m - f) m
                   else m))"

text \<open>
  What the spec calls the number of fraction digits of a rendered amount: the characters
  after the first point, when they are all digits.
\<close>

definition is_digit :: "char \<Rightarrow> bool" where
  "is_digit c \<longleftrightarrow> c \<in> set ''0123456789''"

definition fraction_digits :: "string \<Rightarrow> nat option" where
  "fraction_digits str =
     (case dropWhile (\<lambda>c. c \<noteq> CHR ''.'') str of
        [] \<Rightarrow> None
      | _ # rest \<Rightarrow> if list_all is_digit rest then Some (length rest) else None)"
section \<open>Data model\<close>

text \<open>
  \<^verbatim>\<open>type Item\<close> (lines 6 to 13). An optional field is \<open>None\<close> when it is \<^verbatim>\<open>undefined\<close>.
\<close>

record item =
  item_id :: string
  title :: string
  finalPrice :: rat
  calories :: "rat option"
  proteinGrams :: "rat option"
  discountPct :: "rat option"

text \<open>
  The type is a compile-time annotation only. What the program holds at run time is what
  the response body held: any JSON value. An object is the list of its fields, each key
  once. The value of an expression is a \<open>json option\<close>, \<open>None\<close> for \<^verbatim>\<open>undefined\<close>.
\<close>

datatype json =
  JNull | JBool bool | JNumber rat | JString string | JArray "json list"
  | JObject "(string \<times> json) list"

text \<open>
  The object a service sends for an item of the declared type: the optional fields are
  left out when absent.
\<close>

definition optional_field :: "string \<Rightarrow> rat option \<Rightarrow> (string \<times> json) list" where
  "optional_field k v = (case v of None \<Rightarrow> [] | Some x \<Rightarrow> [(k, JNumber x)])"

definition item_json :: "item \<Rightarrow> json" where
  "item_json p =
     JObject ([(''id'', JString (item_id p)), (''title'', JString (title p)),
               (''finalPrice'', JNumber (finalPrice p))]
              @ optional_field ''calories'' (calories p)
              @ optional_field ''proteinGrams'' (proteinGrams p)
              @ optional_field ''discountPct'' (discountPct p))"

text \<open>
  Reading a property \<^verbatim>\<open>v.k\<close>, for the keys this program reads as data (\<^verbatim>\<open>items\<close>, \<^verbatim>\<open>id\<close>,
  \<^verbatim>\<open>title\<close>, \<^verbatim>\<open>finalPrice\<close>, \<^verbatim>\<open>calories\<close>, \<^verbatim>\<open>proteinGrams\<close>, \<^verbatim>\<open>discountPct\<close>), none of
  which a built-in prototype defines: of \<^verbatim>\<open>null\<close> the read throws a \<^verbatim>\<open>TypeError\<close>; of an
  object it is the field, \<^verbatim>\<open>undefined\<close> when missing; of a string, number, boolean or
  array it is \<^verbatim>\<open>undefined\<close>.
\<close>

definition field :: "json \<Rightarrow> string \<Rightarrow> json option" where
  "field v k = (case v of JObject kvs \<Rightarrow> map_of kvs k | _ \<Rightarrow> None)"

definition get_property :: "json \<Rightarrow> string \<Rightarrow> exn + json option" where
  "get_property v k = (if v = JNull then Inl TypeError else Inr (field v k))"

text \<open>
  Truthiness, and \<^verbatim>\<open>x || []\<close> of line 71: the left operand when it is truthy (whatever
  it is), the empty array otherwise.
\<close>

definition truthy :: "json option \<Rightarrow> bool" where
  "truthy v =
     (case v of
        None \<Rightarrow> False
      | Some JNull \<Rightarrow> False
      | Some (JBool b) \<Rightarrow> b
      | Some (JNumber x) \<Rightarrow> x \<noteq> 0
      | Some (JString s) \<Rightarrow> s \<noteq> []
      | Some (JArray xs) \<Rightarrow> True
      | Some (JObject kvs) \<Rightarrow> True)"

definition or_empty :: "json option \<Rightarrow> json" where
  "or_empty v = (case v of None \<Rightarrow> JArray [] | Some j \<Rightarrow> if truthy (Some j) then j else JArray [])"

section \<open>The request\<close>

text \<open>
  Line 4: \<^verbatim>\<open>const API = import.meta.env.VITE_API_BASE || 'http://localhost:4000'\<close>.
  \<^verbatim>\<open>import.meta.env\<close> maps the names of the build's environment variables to strings;
  \<^verbatim>\<open>||\<close> takes the right operand when the left one is \<^verbatim>\<open>undefined\<close> or the empty string.
\<close>

type_synonym import_meta_env = "string \<rightharpoonup> string"

definition API :: "import_meta_env \<Rightarrow> string" where
  "API env =
     (case env ''VITE_API_BASE'' of
        None \<Rightarrow> ''http://localhost:4000''
      | Some v \<Rightarrow> if v \<noteq> [] then v else ''http://localhost:4000'')"

datatype http_method = GET | POST | PUT | DELETE

record request =
  http_method :: http_method
  url :: string

text \<open>
  What the network answers: nothing (no connection, time-out), or a status with a parsed
  body. \<^verbatim>\<open>axios.get\<close> rejects when there is no response and, by its default
  \<^verbatim>\<open>validateStatus\<close>, when the status is outside 200 to 299.
\<close>

datatype response = NetworkError | Response nat json

definition is_2xx :: "nat \<Rightarrow> bool" where
  "is_2xx st \<longleftrightarrow> 200 \<le> st \<and> st < 300"

definition axios_get :: "response \<Rightarrow> exn + json" where
  "axios_get r =
     (case r of
        NetworkError \<Rightarrow> Inl AxiosError
      | Response st d \<Rightarrow> if is_2xx st then Inr d else Inl AxiosError)"

section \<open>App: state and the mount effect\<close>

text \<open>
  The three \<^verbatim>\<open>useState\<close> cells of lines 60 to 62 with their initial values, and a log of
  the requests sent, which the source does not hold but the network sees. The \<^verbatim>\<open>items\<close>
  cell is declared \<^verbatim>\<open>Item[]\<close>; line 71 stores in it whatever truthy value the body had.
\<close>

record app_state =
  items :: json
  loading :: bool
  error :: "string option"
  sent :: "request list"

definition initial_state :: app_state where
  "initial_state = \<lparr>items = JArray [], loading = False, error = None, sent = []\<rparr>"

text \<open>
  The effect of lines 65 to 78 runs once after the first render. Up to the \<^verbatim>\<open>await\<close> it
  sets \<^verbatim>\<open>loading\<close>, clears \<^verbatim>\<open>error\<close> and sends the request, all before the next render;
  when the call settles, the \<^verbatim>\<open>try\<close> block stores the items, the \<^verbatim>\<open>catch\<close> block turns
  whatever was thrown inside \<^verbatim>\<open>try\<close> into the fixed message, and \<^verbatim>\<open>finally\<close> clears
  \<^verbatim>\<open>loading\<close>.
\<close>

definition effect_start :: "import_meta_env \<Rightarrow> app_state \<Rightarrow> app_state" where
  "effect_start env s =
     s\<lparr>loading := True, error := None,
       sent := sent s @ [\<lparr>http_method = GET, url = API env @ ''/recommend/top?limit=8''\<rparr>]\<rparr>"

definition try_block :: "response \<Rightarrow> app_state \<Rightarrow> exn + app_state" where
  "try_block r s =
     (case axios_get r of
        Inl e \<Rightarrow> Inl e
      | Inr d \<Rightarrow>
          (case get_property d ''items'' of
             Inl e \<Rightarrow> Inl e
           | Inr v \<Rightarrow> Inr (s\<lparr>items := or_empty v\<rparr>)))"

definition effect_settle :: "response \<Rightarrow> app_state \<Rightarrow> app_state" where
  "effect_settle r s =
     (let s1 = (case try_block r s of
                  Inl e \<Rightarrow> s\<lparr>error := Some ''Unable to load recommendations right now''\<rparr>
                | Inr s' \<Rightarrow> s')
      in s1\<lparr>loading := False\<rparr>)"

definition page_load :: "import_meta_env \<Rightarrow> response \<Rightarrow> app_state" where
  "page_load env r = effect_settle r (effect_start env initial_state)"

section \<open>Rendering\<close>

text \<open>
  A JSX child is a piece of literal text or the value of an expression in braces; the
  children of an element are kept in order. React shows a string or a number as text,
  shows nothing for \<^verbatim>\<open>undefined\<close>, \<^verbatim>\<open>null\<close> and booleans, shows an array as its elements
  one after the other, and throws for an object. \<open>children_text\<close> is the text the
  children show.
\<close>

datatype child = Txt string | Expr "json option"

fun renderable :: "json \<Rightarrow> bool" where
  "renderable (JObject kvs) = False"
| "renderable (JArray xs) = (\<forall>x \<in> set xs. renderable x)"
| "renderable v = True"

definition renderable_value :: "json option \<Rightarrow> bool" where
  "renderable_value v = (case v of None \<Rightarrow> True | Some j \<Rightarrow> renderable j)"

fun json_text :: "(rat \<Rightarrow> string) \<Rightarrow> json \<Rightarrow> string" where
  "json_text numstr (JString s) = s"
| "json_text numstr (JNumber x) = Number_toString numstr x"
| "json_text numstr (JArray xs) = concat (map (json_text numstr) xs)"
| "json_text numstr v = []"

definition child_text :: "(rat \<Rightarrow> string) \<Rightarrow> child \<Rightarrow> string" where
  "child_text numstr c =
     (case c of Txt s \<Rightarrow> s | Expr None \<Rightarrow> [] | Expr (Some j) \<Rightarrow> json_text numstr j)"

definition children_text :: "(rat \<Rightarrow> string) \<Rightarrow> child list \<Rightarrow> string" where
  "children_text numstr cs = concat (map (child_text numstr) cs)"

text \<open>
  A render either returns a tree or throws (a \<^verbatim>\<open>TypeError\<close> of the component's own code,
  or React's error for an object used as a child); the file has no error boundary, so a
  throwing render unmounts the page. \<open>None\<close> is that outcome.

  \<^verbatim>\<open>PriceTag\<close> (lines 15 to 24): the price span, and the badge span under
  \<^verbatim>\<open>typeof discount === 'number' && discount > 0\<close>. \<^verbatim>\<open>price.toFixed(2)\<close> throws unless
  \<^verbatim>\<open>price\<close> is a number.
\<close>

record price_tag =
  price_span :: "child list"
  discount_badge :: "child list option"

definition is_positive_number :: "json option \<Rightarrow> bool" where
  "is_positive_number v = (case v of Some (JNumber d) \<Rightarrow> 0 < d | _ \<Rightarrow> False)"

definition PriceTag :: "(rat \<Rightarrow> string) \<Rightarrow> json option \<Rightarrow> json option \<Rightarrow> price_tag option" where
  "PriceTag numstr price discount =
     (case price of
        Some (JNumber x) \<Rightarrow>
          Some \<lparr>price_span = [Txt ''$'', Txt (toFixed numstr x 2)],
                discount_badge =
                  (if is_positive_number discount
                   then Some [Txt ''-'', Expr discount, Txt ''%''] else None)\<rparr>
      | _ \<Rightarrow> None)"

text \<open>
  One \<^verbatim>\<open>article\<close> of the grid (lines 120 to 138), for an element \<open>p\<close> of the array.
  \<^verbatim>\<open>p.id\<close> throws when \<open>p\<close> is \<^verbatim>\<open>null\<close>; \<^verbatim>\<open>x ?? y\<close> is \<open>y\<close> when \<open>x\<close> is \<^verbatim>\<open>undefined\<close> or
  \<^verbatim>\<open>null\<close>.
\<close>

definition em_dash :: string where
  "em_dash = [CHR 0xE2, CHR 0x80, CHR 0x94]"

definition or_dash :: "json option \<Rightarrow> child" where
  "or_dash v = (case v of None \<Rightarrow> Txt em_dash | Some JNull \<Rightarrow> Txt em_dash | Some j \<Rightarrow> Expr (Some j))"

record card =
  card_key :: "json option"
  heading :: "child list"
  save_badge :: "child list option"
  calories_span :: "child list"
  protein_span :: "child list"
  card_price :: price_tag

definition article :: "(rat \<Rightarrow> string) \<Rightarrow> json \<Rightarrow> card option" where
  "article numstr p =
     (if p = JNull then None
      else if \<not> renderable_value (field p ''title'') \<or>
              \<not> renderable_value (field p ''calories'') \<or>
              \<not> renderable_value (field p ''proteinGrams'') then None
      else
        case PriceTag numstr (field p ''finalPrice'') (field p ''discountPct'') of
          None \<Rightarrow> None
        | Some tag \<Rightarrow>
            Some \<lparr>card_key = field p ''id'',
                  heading = [Expr (field p ''title'')],
                  save_badge =
                    (if is_positive_number (field p ''discountPct'')
                     then Some [Txt ''Save '', Expr (field p ''discountPct''), Txt ''%'']
                     else None),
                  calories_span = [or_dash (field p ''calories'')],
                  protein_span = [or_dash (field p ''proteinGrams''), Txt '' g''],
                  card_price = tag\<rparr>)"

text \<open>
  \<^verbatim>\<open>items.map(...)\<close> of line 119 throws unless \<^verbatim>\<open>items\<close> is an array, and then renders the
  elements in order. \<^verbatim>\<open>items.length\<close> of line 145 throws for \<^verbatim>\<open>null\<close>, is the count for an
  array or a string (of ASCII text, where a character is one code unit), the field of
  that name for an object, and \<^verbatim>\<open>undefined\<close> otherwise.
\<close>

definition items_map :: "(json \<Rightarrow> 'a option) \<Rightarrow> json \<Rightarrow> 'a list option" where
  "items_map f v = (case v of JArray xs \<Rightarrow> those (map f xs) | _ \<Rightarrow> None)"

definition items_length :: "json \<Rightarrow> exn + json option" where
  "items_length v =
     (case v of
        JNull \<Rightarrow> Inl TypeError
      | JArray xs \<Rightarrow> Inr (Some (JNumber (of_nat (length xs))))
      | JString s \<Rightarrow> Inr (Some (JNumber (of_nat (length s))))
      | JObject kvs \<Rightarrow> Inr (map_of kvs ''length'')
      | _ \<Rightarrow> Inr None)"

text \<open>
  What \<^verbatim>\<open>App\<close> returns (lines 80 to 160), without the static markup: the label of the
  theme button, the error banner of lines 110 to 114 (shown when \<^verbatim>\<open>error\<close> is truthy), the
  grid of lines 116 to 140 (six skeletons while \<^verbatim>\<open>loading\<close>, the articles otherwise) and
  the children of the summary line 145.
\<close>

record view =
  toggle_label :: string
  banner :: "string option"
  skeletons :: nat
  cards :: "card list"
  total_items :: "child list"

definition App :: "(rat \<Rightarrow> string) \<Rightarrow> bool \<Rightarrow> app_state \<Rightarrow> view option" where
  "App numstr dark s =
     (case (if loading s then Some [] else items_map (article numstr) (items s)) of
        None \<Rightarrow> None
      | Some cs \<Rightarrow>
          (case items_length (items s) of
             Inl e \<Rightarrow> None
           | Inr n \<Rightarrow>
               if renderable_value n then
                 Some \<lparr>toggle_label = (if dark then ''Light'' else ''Dark''),
                       banner = (if truthy_string (error s) then error s else None),
                       skeletons = (if loading s then 6 else 0),
                       cards = cs,
                       total_items = [Txt ''Total items: '', Expr n]\<rparr>
               else None))"

text \<open>
  The texts a card shows for an element, \<open>None\<close> where there is no card or no badge.
\<close>

definition price_text :: "(rat \<Rightarrow> string) \<Rightarrow> json \<Rightarrow> string option" where
  "price_text numstr p =
     (case article numstr p of
        None \<Rightarrow> None
      | Some c \<Rightarrow> Some (children_text numstr (price_span (card_price c))))"

definition price_badge_text :: "(rat \<Rightarrow> string) \<Rightarrow> json \<Rightarrow> string option" where
  "price_badge_text numstr p =
     (case article numstr p of
        None \<Rightarrow> None
      | Some c \<Rightarrow> map_option (children_text numstr) (discount_badge (card_price c)))"

definition heading_badge_text :: "(rat \<Rightarrow> string) \<Rightarrow> json \<Rightarrow> string option" where
  "heading_badge_text numstr p =
     (case article numstr p of
        None \<Rightarrow> None
      | Some c \<Rightarrow> map_option (children_text numstr) (save_badge c))"

text \<open>
  The spec's tri-state \<open>ViewState\<close>, read off the three cells the way the renderer
  reads them.
\<close>

datatype ViewState = Loading | Error string | Ready json

definition viewState :: "app_state \<Rightarrow> ViewState" where
  "viewState s =
     (if loading s then Loading
      else case error s of Some m \<Rightarrow> Error m | None \<Rightarrow> Ready (items s))"

text \<open>
  The amount in hundredths that \<^verbatim>\<open>toFixed(2)\<close> prints: the integer nearest to a hundred
  times the magnitude, the larger one at a tie.
\<close>

definition hundredths :: "rat \<Rightarrow> nat" where
  "hundredths x = nat \<lfloor>\<bar>x\<bar> * 100 + 1 / 2\<rfloor>"

section \<open>Concrete environments\<close>

text \<open>
  Inputs for the examples that follow the general theorems: a working storage that holds
  at most the \<^verbatim>\<open>theme\<close> entry, a browser around a storage, two build environments, an
  item after the spec's first scenario, and a fixed text for the part of \<^verbatim>\<open>toString\<close>
  that the model leaves open (no example reaches it).
\<close>

definition theme_store :: "string option \<Rightarrow> storage" where
  "theme_store v =
     \<lparr>entries = (\<lambda>k. if k = ''theme'' then v else None), readable = True, writable = True\<rparr>"

definition browser_of :: "storage \<Rightarrow> bool option \<Rightarrow> browser" where
  "browser_of st mm = \<lparr>localStorage = st, matchMedia = mm, classList = {}\<rparr>"

definition no_env :: import_meta_env where
  "no_env k = None"

definition only_API_BASE :: import_meta_env where
  "only_API_BASE k = (if k = ''API_BASE'' then Some ''https://api.example.com'' else None)"

definition only_VITE_API_BASE :: import_meta_env where
  "only_VITE_API_BASE k =
     (if k = ''VITE_API_BASE'' then Some ''https://api.example.com'' else None)"

definition oat_bar :: "rat \<Rightarrow> rat option \<Rightarrow> item" where
  "oat_bar price discount =
     \<lparr>item_id = ''1'', title = ''Oat Bar'', finalPrice = price, calories = Some 150,
      proteinGrams = Some 8, discountPct = discount\<rparr>"

definition unprinted :: "rat \<Rightarrow> string" where
  "unprinted x = ''?''"

section \<open>Theme: initial value, storage failures, agreement\<close>

lemma run_effect_writable:
  assumes "writable (localStorage b)"
  shows "\<exists>s. run_effect d b = Inr s \<and> in_sync s \<and> isDark s = d \<and>
             writable (localStorage (page s))"
  using assms
  by (cases d) (simp_all add: run_effect_def useDarkMode_effect_def setItem_def in_sync_def
      theme_name_def Let_def)

lemma clicks_Inr:
  assumes "writable (localStorage (page s))"
  shows "\<exists>s'. clicks n (Inr s) = Inr s' \<and>
              isDark s' = (if even n then isDark s else \<not> isDark s) \<and>
              (0 < n \<longrightarrow> in_sync s') \<and> (n = 0 \<longrightarrow> s' = s)"
  using assms
proof (induction n arbitrary: s)
  case 0
  then show ?case by simp
next
  case (Suc n)
  from run_effect_writable [OF Suc.prems, of "\<not> isDark s"]
  obtain t where t: "onClick s = Inr t" "in_sync t" "isDark t = (\<not> isDark s)"
    "writable (localStorage (page t))"
    by (auto simp: onClick_def commit_def setIsDark_def)
  from Suc.IH [OF t(4)] obtain s' where s': "clicks n (Inr t) = Inr s'"
    "isDark s' = (if even n then isDark t else \<not> isDark t)"
    "0 < n \<longrightarrow> in_sync s'" "n = 0 \<longrightarrow> s' = t"
    by blast
  have "in_sync s'" using s'(3,4) t(2) by (cases "n = 0") auto
  then show ?case using s' t by auto
qed

lemma init_readable:
  "readable (localStorage b) \<Longrightarrow> \<exists>d. useDarkMode_init (Window b) = Inr d"
  by (simp add: getItem_def)

text \<open>
  Claim C4, as amended. With a readable storage the initial theme is: the stored
  \<^verbatim>\<open>theme\<close> value when it is a non-empty string, dark exactly when that string is
  \<^verbatim>\<open>dark\<close>; otherwise (no entry, or the empty string) the colour-scheme preference, dark
  exactly when \<^verbatim>\<open>matchMedia\<close> exists and matches; and light where there is no window.
\<close>

theorem initial_theme_priority:
  assumes "readable (localStorage b)"
  shows "(entries (localStorage b) ''theme'' = Some v \<and> v \<noteq> [] \<longrightarrow>
           useDarkMode_init (Window b) = Inr (v = ''dark'')) \<and>
         (entries (localStorage b) ''theme'' = None \<or>
          entries (localStorage b) ''theme'' = Some [] \<longrightarrow>
           useDarkMode_init (Window b) = Inr (matchMedia b = Some True)) \<and>
         useDarkMode_init NoWindow = Inr False"
  using assms
  by (auto simp: getItem_def truthy_string_def prefers_dark_def split: option.splits)

theorem initial_theme_priority_witness:
  "readable (localStorage (browser_of (theme_store (Some ''dark'')) (Some False))) \<and>
   useDarkMode_init (Window (browser_of (theme_store (Some ''dark'')) (Some False))) = Inr True \<and>
   useDarkMode_init (Window (browser_of (theme_store (Some ''light'')) (Some True))) = Inr False \<and>
   useDarkMode_init (Window (browser_of (theme_store None) (Some True))) = Inr True \<and>
   useDarkMode_init (Window (browser_of (theme_store None) None)) = Inr False"
  using initial_theme_priority [of "browser_of (theme_store (Some ''dark'')) (Some False)" "''dark''"]
    initial_theme_priority [of "browser_of (theme_store (Some ''light'')) (Some True)" "''light''"]
    initial_theme_priority [of "browser_of (theme_store None) (Some True)"]
    initial_theme_priority [of "browser_of (theme_store None) None"]
  by (simp add: browser_of_def theme_store_def)

text \<open>
  Claim C4 as stated fails where the stored value exists and is the empty string: it is
  not \<^verbatim>\<open>dark\<close>, yet with a dark colour-scheme preference the initial theme is dark.
\<close>

theorem stored_empty_string_resolves_dark:
  "entries (localStorage (browser_of (theme_store (Some [])) (Some True))) ''theme'' = Some [] \<and>
   [] \<noteq> ''dark'' \<and>
   useDarkMode_init (Window (browser_of (theme_store (Some [])) (Some True))) = Inr True"
  by (simp add: browser_of_def theme_store_def getItem_def truthy_string_def prefers_dark_def)

text \<open>
  Claim C10. A stored \<^verbatim>\<open>theme\<close> entry that is the empty string is treated like no entry:
  the initial theme is the colour-scheme preference, the same as with the entry removed.
\<close>

theorem empty_saved_theme_falls_through:
  assumes "readable (localStorage b)" and "entries (localStorage b) ''theme'' = Some []"
  shows "useDarkMode_init (Window b) = Inr (matchMedia b = Some True) \<and>
         useDarkMode_init (Window b) =
         useDarkMode_init (Window (b\<lparr>localStorage :=
            (localStorage b)\<lparr>entries := (entries (localStorage b))(''theme'' := None)\<rparr>\<rparr>))"
  using assms
  by (auto simp: getItem_def truthy_string_def prefers_dark_def split: option.splits)

theorem empty_saved_theme_falls_through_witness:
  "readable (localStorage (browser_of (theme_store (Some [])) (Some True))) \<and>
   entries (localStorage (browser_of (theme_store (Some [])) (Some True))) ''theme'' = Some [] \<and>
   useDarkMode_init (Window (browser_of (theme_store (Some [])) (Some True))) =
     Inr (matchMedia (browser_of (theme_store (Some [])) (Some True)) = Some True) \<and>
   matchMedia (browser_of (theme_store (Some [])) (Some True)) = Some True"
  using empty_saved_theme_falls_through [of "browser_of (theme_store (Some [])) (Some True)"]
  by (simp add: browser_of_def theme_store_def)

text \<open>
  Claim C6, as amended. The storage operations are not guarded. The initialiser throws
  exactly when there is a window whose storage cannot be read (it does not fall
  through to the colour-scheme preference). The effect throws exactly when the write is
  refused, and by then the \<^verbatim>\<open>dark\<close> class already follows the flag; with an exception
  out of the effect no mounted state remains.
\<close>

theorem storage_failures_propagate:
  "(useDarkMode_init w = Inl e \<longleftrightarrow>
      (\<exists>b. w = Window b \<and> \<not> readable (localStorage b) \<and> e = DOMException)) \<and>
   fst (useDarkMode_effect d b) =
      (if writable (localStorage b) then None else Some DOMException) \<and>
   (''dark'' \<in> classList (snd (useDarkMode_effect d b))) = d \<and>
   (run_effect d b = Inl e \<longleftrightarrow> \<not> writable (localStorage b) \<and> e = DOMException)"
  by (cases w; cases d)
     (auto simp: getItem_def useDarkMode_effect_def run_effect_def setItem_def Let_def
           split: option.splits sum.splits)

theorem storage_failures_propagate_witness:
  "fst (useDarkMode_effect True (browser_of ((theme_store None)\<lparr>writable := False\<rparr>) None)) =
     Some DOMException \<and>
   ''dark'' \<in> classList (snd (useDarkMode_effect True
      (browser_of ((theme_store None)\<lparr>writable := False\<rparr>) None))) \<and>
   run_effect True (browser_of ((theme_store None)\<lparr>writable := False\<rparr>) None) = Inl DOMException \<and>
   fst (useDarkMode_effect True (browser_of (theme_store None) None)) = None \<and>
   useDarkMode_init (Window (browser_of (theme_store None) None)) \<noteq> Inl DOMException"
  using storage_failures_propagate [of "Window (browser_of (theme_store None) None)" DOMException
      True "browser_of ((theme_store None)\<lparr>writable := False\<rparr>) None"]
    storage_failures_propagate [of NoWindow DOMException True "browser_of (theme_store None) None"]
  by (simp add: browser_of_def theme_store_def)

text \<open>
  Claim C6 as stated fails: with a storage that refuses reads the initialiser throws.
\<close>

theorem unreadable_storage_throws:
  "useDarkMode_init (Window (browser_of ((theme_store None)\<lparr>readable := False\<rparr>) (Some True))) =
     Inl DOMException"
  by (simp add: browser_of_def theme_store_def getItem_def)

lemma run_effect_in_sync:
  "run_effect d b = Inr s \<Longrightarrow> in_sync s \<and> isDark s = d"
  by (cases d)
     (auto simp: run_effect_def useDarkMode_effect_def setItem_def in_sync_def
           theme_name_def Let_def split: if_splits)

lemma clicks_keep_sync:
  assumes "\<forall>t. r = Inr t \<longrightarrow> in_sync t" and "clicks n r = Inr s"
  shows "in_sync s"
  using assms
proof (induction n arbitrary: r)
  case 0
  then show ?case by simp
next
  case (Suc n)
  let ?r' = "case r of Inl e \<Rightarrow> Inl e | Inr t \<Rightarrow> onClick t"
  have "\<forall>t. ?r' = Inr t \<longrightarrow> in_sync t"
    by (auto simp: onClick_def commit_def split: sum.splits dest: run_effect_in_sync)
  moreover have "clicks n ?r' = Inr s" using Suc.prems(2) by simp
  ultimately show ?case by (rule Suc.IH)
qed

lemma effect_refused:
  assumes "\<not> writable (localStorage b)"
  shows "useDarkMode_effect d b =
     (Some DOMException,
      b\<lparr>classList := (if d then insert ''dark'' (classList b) else classList b - {''dark''})\<rparr>)"
  using assms by (simp add: useDarkMode_effect_def setItem_def Let_def)

text \<open>
  Claim C7, as amended. Whenever mounting followed by any number of clicks on the theme
  button leaves a mounted component, that is, whenever every effect has run to its end,
  the \<^verbatim>\<open>dark\<close> class on the document root, the stored \<^verbatim>\<open>theme\<close> value and the in-memory
  flag agree; with a storage that accepts reads and writes every such run does leave one,
  and its flag is the resolved initial value flipped once per click. The agreement is the
  effect's work: the first render has the resolved flag over an untouched browser, and
  an effect whose write is refused throws with the class already changed and the storage
  as it was.
\<close>

theorem theme_in_sync:
  "(\<forall>s. clicks n (mount_theme b) = Inr s \<longrightarrow> in_sync s) \<and>
   (readable (localStorage b) \<and> writable (localStorage b) \<longrightarrow>
      (\<exists>d s. useDarkMode_init (Window b) = Inr d \<and>
             clicks n (mount_theme b) = Inr s \<and>
             isDark s = (if even n then d else \<not> d))) \<and>
   (\<forall>s. first_render b = Inr s \<longrightarrow>
      useDarkMode_init (Window b) = Inr (isDark s) \<and> page s = b) \<and>
   (\<not> writable (localStorage b) \<longrightarrow>
      useDarkMode_effect d b =
        (Some DOMException,
         b\<lparr>classList :=
             (if d then insert ''dark'' (classList b) else classList b - {''dark''})\<rparr>))"
proof (intro conjI allI impI)
  fix s
  assume run: "clicks n (mount_theme b) = Inr s"
  have "\<forall>t. mount_theme b = Inr t \<longrightarrow> in_sync t"
    by (auto simp: mount_theme_def commit_def split: sum.splits dest: run_effect_in_sync)
  then show "in_sync s" using run by (rule clicks_keep_sync)
next
  assume rw: "readable (localStorage b) \<and> writable (localStorage b)"
  from init_readable rw obtain d where d: "useDarkMode_init (Window b) = Inr d"
    by blast
  from run_effect_writable [of b d] rw
  obtain s0 where s0: "run_effect d b = Inr s0" "isDark s0 = d"
    "writable (localStorage (page s0))"
    by blast
  have m: "mount_theme b = Inr s0"
    using d s0(1) by (simp add: mount_theme_def first_render_def commit_def)
  from clicks_Inr [OF s0(3), of n] obtain s where s: "clicks n (Inr s0) = Inr s"
    "isDark s = (if even n then isDark s0 else \<not> isDark s0)"
    by blast
  show "\<exists>d s. useDarkMode_init (Window b) = Inr d \<and>
             clicks n (mount_theme b) = Inr s \<and>
             isDark s = (if even n then d else \<not> d)"
    using d m s s0(2) by auto
next
  fix s
  assume "first_render b = Inr s"
  then show "useDarkMode_init (Window b) = Inr (isDark s)" and "page s = b"
    by (auto simp: first_render_def split: sum.splits)
next
  assume "\<not> writable (localStorage b)"
  then show "useDarkMode_effect d b =
        (Some DOMException,
         b\<lparr>classList :=
             (if d then insert ''dark'' (classList b) else classList b - {''dark''})\<rparr>)"
    by (rule effect_refused)
qed

theorem theme_in_sync_witness:
  "readable (localStorage (browser_of (theme_store None) (Some True))) \<and>
   writable (localStorage (browser_of (theme_store None) (Some True))) \<and>
   (\<exists>s. clicks 0 (mount_theme (browser_of (theme_store None) (Some True))) = Inr s \<and>
        isDark s \<and> ''dark'' \<in> classList (page s) \<and>
        entries (localStorage (page s)) ''theme'' = Some ''dark'') \<and>
   (\<exists>s. clicks 1 (mount_theme (browser_of (theme_store None) (Some True))) = Inr s \<and>
        \<not> isDark s \<and> ''dark'' \<notin> classList (page s) \<and>
        entries (localStorage (page s)) ''theme'' = Some ''light'') \<and>
   (\<exists>s. clicks 2 (mount_theme (browser_of (theme_store (Some ''light'')) None)) = Inr s \<and>
        \<not> isDark s \<and> ''dark'' \<notin> classList (page s) \<and>
        entries (localStorage (page s)) ''theme'' = Some ''light'') \<and>
   first_render (browser_of (theme_store None) (Some True)) =
     Inr \<lparr>isDark = True, page = browser_of (theme_store None) (Some True)\<rparr> \<and>
   \<not> in_sync \<lparr>isDark = True, page = browser_of (theme_store None) (Some True)\<rparr> \<and>
   \<not> writable (localStorage (browser_of ((theme_store None)\<lparr>writable := False\<rparr>) (Some True))) \<and>
   fst (useDarkMode_effect True
      (browser_of ((theme_store None)\<lparr>writable := False\<rparr>) (Some True))) = Some DOMException"
proof -
  let ?b = "browser_of (theme_store None) (Some True)"
  let ?l = "browser_of (theme_store (Some ''light'')) None"
  let ?r = "browser_of ((theme_store None)\<lparr>writable := False\<rparr>) (Some True)"
  have rw: "readable (localStorage ?b) \<and> writable (localStorage ?b)"
    and rwl: "readable (localStorage ?l) \<and> writable (localStorage ?l)"
    and nw: "\<not> writable (localStorage ?r)"
    by (simp_all add: browser_of_def theme_store_def)
  have d: "useDarkMode_init (Window ?b) = Inr True"
    and dl: "useDarkMode_init (Window ?l) = Inr False"
    by (simp_all add: browser_of_def theme_store_def getItem_def truthy_string_def
        prefers_dark_def)
  have fr: "first_render ?b = Inr \<lparr>isDark = True, page = ?b\<rparr>"
    using d by (simp add: first_render_def)
  have c0: "\<exists>s. clicks 0 (mount_theme ?b) = Inr s \<and> isDark s \<and>
      ''dark'' \<in> classList (page s) \<and> entries (localStorage (page s)) ''theme'' = Some ''dark''"
    using theme_in_sync [of 0 ?b True] rw d
    by (auto simp: in_sync_def theme_name_def)
  have c1: "\<exists>s. clicks 1 (mount_theme ?b) = Inr s \<and> \<not> isDark s \<and>
      ''dark'' \<notin> classList (page s) \<and> entries (localStorage (page s)) ''theme'' = Some ''light''"
    using theme_in_sync [of 1 ?b True] rw d
    by (auto simp: in_sync_def theme_name_def)
  have c2: "\<exists>s. clicks 2 (mount_theme ?l) = Inr s \<and> \<not> isDark s \<and>
      ''dark'' \<notin> classList (page s) \<and> entries (localStorage (page s)) ''theme'' = Some ''light''"
    using theme_in_sync [of 2 ?l True] rwl dl
    by (auto simp: in_sync_def theme_name_def)
  have e: "fst (useDarkMode_effect True ?r) = Some DOMException"
    using theme_in_sync [of 0 ?r True] nw by simp
  have ns: "\<not> in_sync \<lparr>isDark = True, page = ?b\<rparr>"
    by (simp add: in_sync_def browser_of_def)
  show ?thesis using rw c0 c1 c2 fr ns nw e by blast
qed

text \<open>
  Claim C7 as stated fails where the storage refuses the write. On a first load with no
  stored theme and a dark colour-scheme preference the marker is applied and nothing is
  stored; after a click from light to dark over a stored \<^verbatim>\<open>light\<close> the marker is dark
  and the stored value still \<^verbatim>\<open>light\<close>.
\<close>

theorem refused_write_diverges:
  "useDarkMode_init (Window (browser_of ((theme_store None)\<lparr>writable := False\<rparr>) (Some True))) =
     Inr True \<and>
   ''dark'' \<in> classList (snd (useDarkMode_effect True
      (browser_of ((theme_store None)\<lparr>writable := False\<rparr>) (Some True)))) \<and>
   entries (localStorage (snd (useDarkMode_effect True
      (browser_of ((theme_store None)\<lparr>writable := False\<rparr>) (Some True))))) ''theme'' = None \<and>
   ''dark'' \<in> classList (snd (useDarkMode_effect True
      (browser_of ((theme_store (Some ''light''))\<lparr>writable := False\<rparr>) None))) \<and>
   entries (localStorage (snd (useDarkMode_effect True
      (browser_of ((theme_store (Some ''light''))\<lparr>writable := False\<rparr>) None)))) ''theme'' =
     Some ''light''"
  by (simp add: browser_of_def theme_store_def getItem_def truthy_string_def prefers_dark_def
      useDarkMode_effect_def setItem_def Let_def)

section \<open>Fetch and view state\<close>

lemma try_block_failed:
  assumes "r = NetworkError \<or> (\<exists>st d. r = Response st d \<and> \<not> is_2xx st)"
  shows "try_block r s = Inl AxiosError"
  using assms by (auto simp: try_block_def axios_get_def)

lemma try_block_2xx:
  assumes "is_2xx st"
  shows "try_block (Response st body) s =
     (if body = JNull then Inl TypeError else Inr (s\<lparr>items := or_empty (field body ''items'')\<rparr>))"
  using assms by (simp add: try_block_def axios_get_def get_property_def)

lemma sent_effect_settle: "sent (effect_settle r s) = sent s"
  by (cases r)
     (auto simp: effect_settle_def try_block_def axios_get_def get_property_def)

lemma digit_0: "decimal 0 = ''0''"
  by (subst decimal.simps) (simp add: digit_def)

lemma Number_toString_0: "Number_toString numstr 0 = ''0''"
  by (simp add: Number_toString_def digit_0)

lemma total_items_0:
  "children_text numstr [Txt ''Total items: '', Expr (Some (JNumber 0))] = ''Total items: 0''"
  by (simp add: children_text_def child_text_def Number_toString_0)

lemma App_no_items:
  assumes "items s = JArray []"
  shows "App numstr dark s =
     Some \<lparr>toggle_label = (if dark then ''Light'' else ''Dark''),
           banner = (if truthy_string (error s) then error s else None),
           skeletons = (if loading s then 6 else 0),
           cards = [],
           total_items = [Txt ''Total items: '', Expr (Some (JNumber 0))]\<rparr>"
  using assms by (simp add: App_def items_map_def items_length_def renderable_value_def)

text \<open>
  Claim C1. When the call fails (no response, or a status outside 200 to 299) the page
  load ends in the error state with exactly the fixed message and no items: the banner
  shows that message, the grid has neither skeletons nor cards, and the summary reads
  \<^verbatim>\<open>Total items: 0\<close>. The effect returns a state for every response and the render
  returns a tree; nothing is thrown.
\<close>

theorem failed_fetch_shows_error:
  assumes "r = NetworkError \<or> (\<exists>st d. r = Response st d \<and> \<not> is_2xx st)"
  shows "viewState (page_load env r) = Error ''Unable to load recommendations right now'' \<and>
         items (page_load env r) = JArray [] \<and>
         App numstr dark (page_load env r) =
           Some \<lparr>toggle_label = (if dark then ''Light'' else ''Dark''),
                 banner = Some ''Unable to load recommendations right now'',
                 skeletons = 0,
                 cards = [],
                 total_items = [Txt ''Total items: '', Expr (Some (JNumber 0))]\<rparr> \<and>
         children_text numstr [Txt ''Total items: '', Expr (Some (JNumber 0))] =
           ''Total items: 0''"
proof -
  have s: "page_load env r =
      (effect_start env initial_state)
        \<lparr>error := Some ''Unable to load recommendations right now'', loading := False\<rparr>"
    using try_block_failed [OF assms] by (simp add: page_load_def effect_settle_def)
  have i: "items (page_load env r) = JArray []"
    by (simp add: s effect_start_def initial_state_def)
  show ?thesis
    using App_no_items [OF i, of numstr dark]
    by (simp add: i total_items_0) (simp add: s viewState_def truthy_string_def)
qed

theorem failed_fetch_shows_error_witness:
  "(Response 503 (JObject []) = NetworkError \<or>
    (\<exists>st d. Response 503 (JObject []) = Response st d \<and> \<not> is_2xx st)) \<and>
   viewState (page_load no_env (Response 503 (JObject []))) =
     Error ''Unable to load recommendations right now'' \<and>
   viewState (page_load no_env NetworkError) =
     Error ''Unable to load recommendations right now'' \<and>
   App unprinted False (page_load no_env NetworkError) =
     Some \<lparr>toggle_label = ''Dark'',
           banner = Some ''Unable to load recommendations right now'',
           skeletons = 0,
           cards = [],
           total_items = [Txt ''Total items: '', Expr (Some (JNumber 0))]\<rparr> \<and>
   children_text unprinted [Txt ''Total items: '', Expr (Some (JNumber 0))] =
     ''Total items: 0''"
  using failed_fetch_shows_error [of "Response 503 (JObject [])" no_env unprinted False]
    failed_fetch_shows_error [of NetworkError no_env unprinted False]
  by (simp add: is_2xx_def)

text \<open>
  Claim C2, as amended. The state built at mount has \<^verbatim>\<open>loading\<close> false, no items and no
  error: the first render shows neither skeletons nor cards. The mount effect then, in
  one step and unconditionally, enters the loading state and sends the request; from
  then until the call settles a render shows six skeletons and no cards. When the call
  settles the state leaves the loading state: for the error state when there is no
  response, a status outside 200 to 299 or the body \<^verbatim>\<open>null\<close>, and otherwise for the ready
  state holding the body's \<^verbatim>\<open>items\<close> value, or the empty array when that is missing or
  falsy. The render of a state that is not loading throws when the held value is not an
  array.
\<close>

theorem loading_entered_by_effect:
  "viewState initial_state = Ready (JArray []) \<and>
   App numstr dark initial_state =
     Some \<lparr>toggle_label = (if dark then ''Light'' else ''Dark''), banner = None,
           skeletons = 0, cards = [],
           total_items = [Txt ''Total items: '', Expr (Some (JNumber 0))]\<rparr> \<and>
   viewState (effect_start env s0) = Loading \<and>
   sent (effect_start env s0) =
     sent s0 @ [\<lparr>http_method = GET, url = API env @ ''/recommend/top?limit=8''\<rparr>] \<and>
   App numstr dark (effect_start env initial_state) =
     Some \<lparr>toggle_label = (if dark then ''Light'' else ''Dark''), banner = None,
           skeletons = 6, cards = [],
           total_items = [Txt ''Total items: '', Expr (Some (JNumber 0))]\<rparr> \<and>
   (\<forall>v. loading s \<and> App numstr dark s = Some v \<longrightarrow> skeletons v = 6 \<and> cards v = []) \<and>
   viewState (effect_settle r (effect_start env s0)) =
     (case r of
        NetworkError \<Rightarrow> Error ''Unable to load recommendations right now''
      | Response st body \<Rightarrow>
          if is_2xx st \<and> body \<noteq> JNull then Ready (or_empty (field body ''items''))
          else Error ''Unable to load recommendations right now'') \<and>
   (\<not> loading s \<and> (\<forall>xs. items s \<noteq> JArray xs) \<longrightarrow> App numstr dark s = None)"
proof (intro conjI allI impI)
  show "viewState initial_state = Ready (JArray [])"
    by (simp add: viewState_def initial_state_def)
  show "App numstr dark initial_state =
     Some \<lparr>toggle_label = (if dark then ''Light'' else ''Dark''), banner = None,
           skeletons = 0, cards = [],
           total_items = [Txt ''Total items: '', Expr (Some (JNumber 0))]\<rparr>"
    using App_no_items [of initial_state numstr dark]
    by (simp add: initial_state_def truthy_string_def)
  show "viewState (effect_start env s0) = Loading"
    by (simp add: viewState_def effect_start_def)
  show "sent (effect_start env s0) =
     sent s0 @ [\<lparr>http_method = GET, url = API env @ ''/recommend/top?limit=8''\<rparr>]"
    by (simp add: effect_start_def)
  show "App numstr dark (effect_start env initial_state) =
     Some \<lparr>toggle_label = (if dark then ''Light'' else ''Dark''), banner = None,
           skeletons = 6, cards = [],
           total_items = [Txt ''Total items: '', Expr (Some (JNumber 0))]\<rparr>"
    using App_no_items [of "effect_start env initial_state" numstr dark]
    by (simp add: effect_start_def initial_state_def truthy_string_def)
  show "viewState (effect_settle r (effect_start env s0)) =
     (case r of
        NetworkError \<Rightarrow> Error ''Unable to load recommendations right now''
      | Response st body \<Rightarrow>
          if is_2xx st \<and> body \<noteq> JNull then Ready (or_empty (field body ''items''))
          else Error ''Unable to load recommendations right now'')"
    by (cases r)
       (auto simp: viewState_def effect_start_def effect_settle_def try_block_def
             axios_get_def get_property_def)
next
  fix v
  assume a: "loading s \<and> App numstr dark s = Some v"
  then show "skeletons v = 6" and "cards v = []"
    by (auto simp: App_def split: sum.splits if_splits)
next
  assume a: "\<not> loading s \<and> (\<forall>xs. items s \<noteq> JArray xs)"
  then show "App numstr dark s = None"
    by (cases "items s") (auto simp: App_def items_map_def)
qed

theorem loading_entered_by_effect_witness:
  "viewState (effect_start no_env initial_state) = Loading \<and>
   viewState (effect_settle
      (Response 200 (JObject [(''items'', JArray [item_json (oat_bar (5 / 2) (Some 10))])]))
      (effect_start no_env initial_state)) = Ready (JArray [item_json (oat_bar (5 / 2) (Some 10))]) \<and>
   viewState (effect_settle (Response 404 (JObject []))
      (effect_start no_env initial_state)) = Error ''Unable to load recommendations right now'' \<and>
   viewState (effect_settle (Response 200 (JObject [(''items'', JNumber 5)]))
      (effect_start no_env initial_state)) = Ready (JNumber 5) \<and>
   App unprinted False (effect_settle (Response 200 (JObject [(''items'', JNumber 5)]))
      (effect_start no_env initial_state)) = None"
proof -
  let ?ok = "Response 200 (JObject [(''items'', JArray [item_json (oat_bar (5 / 2) (Some 10))])])"
  let ?five = "Response 200 (JObject [(''items'', JNumber 5)])"
  let ?s5 = "effect_settle ?five (effect_start no_env initial_state)"
  have i5: "items ?s5 = JNumber 5" and l5: "\<not> loading ?s5"
    by (simp_all add: effect_settle_def effect_start_def initial_state_def try_block_def
        axios_get_def get_property_def is_2xx_def field_def or_empty_def truthy_def)
  have n5: "\<not> loading ?s5 \<and> (\<forall>xs. items ?s5 \<noteq> JArray xs)"
    using i5 l5 by simp
  have crash: "App unprinted False ?s5 = None"
    using loading_entered_by_effect [of unprinted False no_env initial_state ?s5 ?five] n5
    by blast
  have a: "viewState (effect_start no_env initial_state) = Loading"
    using loading_entered_by_effect [of unprinted False no_env initial_state ?s5 ?five]
    by blast
  have b: "viewState (effect_settle ?ok (effect_start no_env initial_state)) =
      Ready (JArray [item_json (oat_bar (5 / 2) (Some 10))])"
    using loading_entered_by_effect [of unprinted False no_env initial_state ?s5 ?ok]
    by (simp add: is_2xx_def field_def or_empty_def truthy_def)
  have c: "viewState (effect_settle (Response 404 (JObject []))
      (effect_start no_env initial_state)) = Error ''Unable to load recommendations right now''"
    using loading_entered_by_effect [of unprinted False no_env initial_state ?s5
        "Response 404 (JObject [])"]
    by (simp add: is_2xx_def)
  have d: "viewState ?s5 = Ready (JNumber 5)"
    using loading_entered_by_effect [of unprinted False no_env initial_state ?s5 ?five]
    by (simp add: is_2xx_def field_def or_empty_def truthy_def)
  show ?thesis using a b c d crash by blast
qed

text \<open>
  Claim C2 as stated fails at mount: the initial state is not the loading state, and its
  render shows no skeleton.
\<close>

theorem first_render_not_loading:
  "loading initial_state = False \<and> viewState initial_state \<noteq> Loading \<and>
   map_option skeletons (App unprinted False initial_state) = Some 0"
  by (simp add: initial_state_def viewState_def App_def items_map_def items_length_def
      renderable_value_def)

text \<open>
  Claim C5, as amended. A 2xx response whose body is not \<^verbatim>\<open>null\<close> and whose \<^verbatim>\<open>items\<close>
  is missing or falsy ends in the ready state with no items: no banner, no skeletons, no
  cards, and a summary of 0. A 2xx response whose body is \<^verbatim>\<open>null\<close> ends in the error
  state.
\<close>

theorem missing_items_is_ready_empty:
  assumes "is_2xx st"
  shows "(body \<noteq> JNull \<and> \<not> truthy (field body ''items'') \<longrightarrow>
           viewState (page_load env (Response st body)) = Ready (JArray []) \<and>
           error (page_load env (Response st body)) = None \<and>
           App numstr dark (page_load env (Response st body)) =
             Some \<lparr>toggle_label = (if dark then ''Light'' else ''Dark''), banner = None,
                   skeletons = 0, cards = [],
                   total_items = [Txt ''Total items: '', Expr (Some (JNumber 0))]\<rparr> \<and>
           children_text numstr [Txt ''Total items: '', Expr (Some (JNumber 0))] =
             ''Total items: 0'') \<and>
         viewState (page_load env (Response st JNull)) =
           Error ''Unable to load recommendations right now''"
proof (intro conjI impI)
  assume b: "body \<noteq> JNull \<and> \<not> truthy (field body ''items'')"
  then have e: "or_empty (field body ''items'') = JArray []"
    by (auto simp: or_empty_def split: option.splits)
  have s: "page_load env (Response st body) =
      (effect_start env initial_state)\<lparr>items := JArray [], loading := False\<rparr>"
    using b e by (simp add: page_load_def effect_settle_def try_block_2xx [OF assms])
  have i: "items (page_load env (Response st body)) = JArray []"
    by (simp add: s)
  show "viewState (page_load env (Response st body)) = Ready (JArray [])"
    by (simp add: s viewState_def effect_start_def)
  show "error (page_load env (Response st body)) = None"
    by (simp add: s effect_start_def)
  show "App numstr dark (page_load env (Response st body)) =
             Some \<lparr>toggle_label = (if dark then ''Light'' else ''Dark''), banner = None,
                   skeletons = 0, cards = [],
                   total_items = [Txt ''Total items: '', Expr (Some (JNumber 0))]\<rparr>"
    using App_no_items [OF i, of numstr dark]
    by (simp add: s effect_start_def truthy_string_def)
  show "children_text numstr [Txt ''Total items: '', Expr (Some (JNumber 0))] =
             ''Total items: 0''"
    by (rule total_items_0)
next
  show "viewState (page_load env (Response st JNull)) =
           Error ''Unable to load recommendations right now''"
    by (simp add: page_load_def effect_settle_def try_block_2xx [OF assms] viewState_def)
qed

theorem missing_items_is_ready_empty_witness:
  "is_2xx 200 \<and>
   JObject [(''total'', JNumber 0)] \<noteq> JNull \<and>
   \<not> truthy (field (JObject [(''total'', JNumber 0)]) ''items'') \<and>
   \<not> truthy (field (JObject [(''items'', JNull)]) ''items'') \<and>
   \<not> truthy (field (JString []) ''items'') \<and>
   viewState (page_load no_env (Response 200 (JObject [(''total'', JNumber 0)]))) =
     Ready (JArray []) \<and>
   viewState (page_load no_env (Response 200 (JObject [(''items'', JNull)]))) =
     Ready (JArray []) \<and>
   viewState (page_load no_env (Response 200 (JString []))) = Ready (JArray []) \<and>
   App unprinted False (page_load no_env (Response 200 (JObject [(''total'', JNumber 0)]))) =
     Some \<lparr>toggle_label = ''Dark'', banner = None, skeletons = 0, cards = [],
           total_items = [Txt ''Total items: '', Expr (Some (JNumber 0))]\<rparr>"
proof -
  have ok: "is_2xx 200" by (simp add: is_2xx_def)
  have f1: "JObject [(''total'', JNumber 0)] \<noteq> JNull \<and>
      \<not> truthy (field (JObject [(''total'', JNumber 0)]) ''items'')"
    and f2: "JObject [(''items'', JNull)] \<noteq> JNull \<and>
      \<not> truthy (field (JObject [(''items'', JNull)]) ''items'')"
    and f3: "JString [] \<noteq> JNull \<and> \<not> truthy (field (JString []) ''items'')"
    by (simp_all add: field_def truthy_def)
  show ?thesis
    using ok f1 f2 f3
      missing_items_is_ready_empty [OF ok, of "JObject [(''total'', JNumber 0)]" no_env
        unprinted False]
      missing_items_is_ready_empty [OF ok, of "JObject [(''items'', JNull)]" no_env
        unprinted False]
      missing_items_is_ready_empty [OF ok, of "JString []" no_env unprinted False]
    by simp
qed

text \<open>
  Claim C5 as stated fails for the body \<^verbatim>\<open>null\<close>, which has no \<^verbatim>\<open>items\<close> field: reading
  the field throws inside \<^verbatim>\<open>try\<close>, and the page ends in the error state.
\<close>

theorem null_body_is_error:
  "is_2xx 200 \<and>
   viewState (page_load no_env (Response 200 JNull)) =
     Error ''Unable to load recommendations right now''"
  by (simp add: is_2xx_def page_load_def effect_settle_def effect_start_def
      initial_state_def try_block_def axios_get_def get_property_def viewState_def)

text \<open>
  Claim C8, as amended. A page load sends exactly one request, a GET to
  \<^verbatim>\<open>{base}/recommend/top?limit=8\<close>, where the base is the value of the variable
  \<^verbatim>\<open>VITE_API_BASE\<close> when that is set to a non-empty string and \<^verbatim>\<open>http://localhost:4000\<close>
  otherwise; no other variable has any influence on the request.
\<close>

theorem request_target:
  "sent (page_load env r) =
     [\<lparr>http_method = GET, url = API env @ ''/recommend/top?limit=8''\<rparr>] \<and>
   (env ''VITE_API_BASE'' = Some v \<and> v \<noteq> [] \<longrightarrow> API env = v) \<and>
   (env ''VITE_API_BASE'' = None \<or> env ''VITE_API_BASE'' = Some [] \<longrightarrow>
      API env = ''http://localhost:4000'') \<and>
   (env' ''VITE_API_BASE'' = env ''VITE_API_BASE'' \<longrightarrow>
      sent (page_load env' r) = sent (page_load env r))"
  by (auto simp: page_load_def sent_effect_settle effect_start_def initial_state_def API_def)

theorem request_target_witness:
  "sent (page_load only_VITE_API_BASE NetworkError) =
     [\<lparr>http_method = GET, url = ''https://api.example.com/recommend/top?limit=8''\<rparr>] \<and>
   sent (page_load no_env NetworkError) =
     [\<lparr>http_method = GET, url = ''http://localhost:4000/recommend/top?limit=8''\<rparr>]"
  using request_target [of only_VITE_API_BASE NetworkError "''https://api.example.com''" no_env]
    request_target [of no_env NetworkError "[]" no_env]
  by (simp add: only_VITE_API_BASE_def no_env_def)

text \<open>
  Claim C8 as stated fails: with \<^verbatim>\<open>API_BASE\<close> set, the request still goes to the default
  address.
\<close>

theorem API_BASE_is_not_read:
  "only_API_BASE ''API_BASE'' = Some ''https://api.example.com'' \<and>
   sent (page_load only_API_BASE NetworkError) =
     [\<lparr>http_method = GET, url = ''http://localhost:4000/recommend/top?limit=8''\<rparr>]"
  by (simp add: only_API_BASE_def page_load_def effect_settle_def effect_start_def
      initial_state_def API_def try_block_def axios_get_def)

section \<open>Cards: discount badge and price\<close>

lemma digit_is_digit: "k < 10 \<Longrightarrow> is_digit (digit k)"
proof -
  assume "k < 10"
  then have "k \<in> {0, 1, 2, 3, 4, 5, 6, 7, 8, 9}" by auto
  then show ?thesis by (auto simp: digit_def is_digit_def)
qed

lemma decimal_small: "n < 10 \<Longrightarrow> decimal n = [digit n]"
  by (subst decimal.simps) simp

lemma decimal_step: "10 \<le> n \<Longrightarrow> decimal n = decimal (n div 10) @ [digit (n mod 10)]"
  by (subst decimal.simps) simp

lemma decimal_not_Nil: "decimal n \<noteq> []"
  by (subst decimal.simps) simp

lemma decimal_is_digit: "list_all is_digit (decimal n)"
proof (induction n rule: decimal.induct)
  case (1 n)
  show ?case
  proof (cases "n < 10")
    case True
    then show ?thesis by (simp add: decimal_small digit_is_digit)
  next
    case False
    then show ?thesis using 1 by (simp add: decimal_step digit_is_digit)
  qed
qed

lemma point_not_digit: "is_digit c \<Longrightarrow> c \<noteq> CHR ''.''"
  by (auto simp: is_digit_def)

lemma decimal_hundreds:
  assumes "100 \<le> n"
  shows "decimal n = decimal (n div 100) @ [digit (n div 10 mod 10), digit (n mod 10)]"
proof -
  have a: "10 \<le> n" and b: "10 \<le> n div 10" using assms by auto
  have c: "n div 10 div 10 = n div 100" by (simp add: div_mult2_eq)
  show ?thesis by (simp add: decimal_step [OF a] decimal_step [OF b] c)
qed

lemma padded_digits:
  "(if length (decimal n) \<le> 2 then replicate (3 - length (decimal n)) CHR ''0'' @ decimal n
    else decimal n) = decimal (n div 100) @ [digit (n div 10 mod 10), digit (n mod 10)]"
proof -
  consider "n < 10" | "10 \<le> n" "n < 100" | "100 \<le> n" by linarith
  then show ?thesis
  proof cases
    case 1
    then show ?thesis by (simp add: decimal_small digit_def numeral_2_eq_2)
  next
    case 2
    then have "n div 10 < 10" by simp
    then show ?thesis using 2 by (simp add: decimal_step decimal_small digit_def)
  next
    case 3
    then show ?thesis by (simp add: decimal_hundreds decimal_not_Nil)
  qed
qed

lemma toFixed_2:
  assumes "\<bar>x\<bar> < 10 ^ 21"
  shows "toFixed numstr x 2 =
     (if x < 0 then ''-'' else []) @ decimal (hundredths x div 100) @ ''.'' @
     [digit (hundredths x div 10 mod 10), digit (hundredths x mod 10)]"
proof -
  let ?n = "hundredths x"
  let ?m = "(if length (decimal ?n) \<le> 2
             then replicate (3 - length (decimal ?n)) CHR ''0'' @ decimal ?n else decimal ?n)"
  have m: "?m = decimal (?n div 100) @ [digit (?n div 10 mod 10), digit (?n mod 10)]"
    by (rule padded_digits)
  have "toFixed numstr x 2 =
      (if x < 0 then ''-'' else []) @ take (length ?m - 2) ?m @ ''.'' @ drop (length ?m - 2) ?m"
    using assms by (simp add: toFixed_def Let_def hundredths_def)
  also have "take (length ?m - 2) ?m = decimal (?n div 100)"
    by (subst m, subst m) simp
  also have "drop (length ?m - 2) ?m = [digit (?n div 10 mod 10), digit (?n mod 10)]"
    by (subst m, subst m) simp
  finally show ?thesis .
qed

lemma fraction_digits_after_point:
  assumes "\<forall>c \<in> set pre. c \<noteq> CHR ''.''" and "list_all is_digit post"
  shows "fraction_digits (pre @ ''.'' @ post) = Some (length post)"
  using assms by (simp add: fraction_digits_def dropWhile_append3)

lemma fraction_digits_toFixed_2:
  assumes "\<bar>x\<bar> < 10 ^ 21"
  shows "fraction_digits (''$'' @ toFixed numstr x 2) = Some 2"
proof -
  let ?pre = "''$'' @ (if x < 0 then ''-'' else []) @ decimal (hundredths x div 100)"
  let ?post = "[digit (hundredths x div 10 mod 10), digit (hundredths x mod 10)]"
  have "\<forall>c \<in> set (decimal (hundredths x div 100)). c \<noteq> CHR ''.''"
    using decimal_is_digit [of "hundredths x div 100"] point_not_digit
    by (auto simp: list_all_iff)
  then have pre: "\<forall>c \<in> set ?pre. c \<noteq> CHR ''.''" by auto
  have post: "list_all is_digit ?post" by (simp add: digit_is_digit)
  have "''$'' @ toFixed numstr x 2 = ?pre @ ''.'' @ ?post"
    by (simp add: toFixed_2 [OF assms])
  then show ?thesis using fraction_digits_after_point [OF pre post] by simp
qed

lemma hundredths_nearest:
  "\<bar>x\<bar> * 100 - 1 / 2 < of_nat (hundredths x) \<and> of_nat (hundredths x) \<le> \<bar>x\<bar> * 100 + 1 / 2"
proof -
  let ?y = "\<bar>x\<bar> * 100 + 1 / 2"
  have nonneg: "0 \<le> \<lfloor>?y\<rfloor>" by simp
  have eq: "(of_nat (hundredths x) :: rat) = of_int \<lfloor>?y\<rfloor>"
    using nonneg by (simp add: hundredths_def)
  have "of_int \<lfloor>?y\<rfloor> \<le> ?y" and "?y < of_int \<lfloor>?y\<rfloor> + 1"
    by linarith+
  then show ?thesis unfolding eq by linarith
qed

lemma field_item_json:
  "field (item_json p) ''id'' = Some (JString (item_id p))"
  "field (item_json p) ''title'' = Some (JString (title p))"
  "field (item_json p) ''finalPrice'' = Some (JNumber (finalPrice p))"
  "field (item_json p) ''calories'' = map_option JNumber (calories p)"
  "field (item_json p) ''proteinGrams'' = map_option JNumber (proteinGrams p)"
  "field (item_json p) ''discountPct'' = map_option JNumber (discountPct p)"
  by (simp_all add: field_def item_json_def optional_field_def split: option.splits)

lemma positive_number_discount:
  "is_positive_number (map_option JNumber d) \<longleftrightarrow> (\<exists>x. d = Some x \<and> 0 < x)"
  by (cases d) (simp_all add: is_positive_number_def)

lemma article_item_json:
  "article numstr (item_json p) =
     Some \<lparr>card_key = Some (JString (item_id p)),
           heading = [Expr (Some (JString (title p)))],
           save_badge =
             (if is_positive_number (map_option JNumber (discountPct p))
              then Some [Txt ''Save '', Expr (map_option JNumber (discountPct p)), Txt ''%'']
              else None),
           calories_span = [or_dash (map_option JNumber (calories p))],
           protein_span = [or_dash (map_option JNumber (proteinGrams p)), Txt '' g''],
           card_price =
             \<lparr>price_span = [Txt ''$'', Txt (toFixed numstr (finalPrice p) 2)],
              discount_badge =
                (if is_positive_number (map_option JNumber (discountPct p))
                 then Some [Txt ''-'', Expr (map_option JNumber (discountPct p)), Txt ''%'']
                 else None)\<rparr>\<rparr>"
proof -
  have nn: "item_json p \<noteq> JNull" by (simp add: item_json_def)
  have r: "renderable_value (map_option JNumber (calories p))"
    "renderable_value (map_option JNumber (proteinGrams p))"
    by (simp_all add: renderable_value_def split: option.splits)
  show ?thesis
    using nn r by (simp add: article_def field_item_json PriceTag_def renderable_value_def)
qed

lemma those_map_Some: "those (map (\<lambda>x. Some (f x)) xs) = Some (map f xs)"
  by (induction xs) simp_all

text \<open>
  Claim C3, as amended. For an item of the declared type there is a card, and both of
  its discount badges, the one in the heading and the one of the price tag, are present
  exactly when \<^verbatim>\<open>discountPct\<close> is present and greater than 0 (so neither for 0 nor for an
  absent field). When present, the badge of the price tag reads a minus sign, the
  percentage and a percent sign, and the badge in the heading reads \<^verbatim>\<open>Save\<close>, a space, the
  percentage and a percent sign. For any element that has a card, the badges are present
  exactly when its \<^verbatim>\<open>discountPct\<close> is a number greater than 0. A state that is not
  loading and holds an array of such items shows their cards in the array's order.
\<close>

theorem discount_badges:
  "article numstr (item_json p) \<noteq> None \<and>
   (price_badge_text numstr (item_json p) \<noteq> None \<longleftrightarrow>
      (\<exists>d. discountPct p = Some d \<and> 0 < d)) \<and>
   (heading_badge_text numstr (item_json p) \<noteq> None \<longleftrightarrow>
      (\<exists>d. discountPct p = Some d \<and> 0 < d)) \<and>
   (\<forall>d. discountPct p = Some d \<and> 0 < d \<longrightarrow>
      price_badge_text numstr (item_json p) = Some (''-'' @ Number_toString numstr d @ ''%'') \<and>
      heading_badge_text numstr (item_json p) =
        Some (''Save '' @ Number_toString numstr d @ ''%'')) \<and>
   (\<forall>c. article numstr e = Some c \<longrightarrow>
      (discount_badge (card_price c) \<noteq> None \<longleftrightarrow>
         (\<exists>d. field e ''discountPct'' = Some (JNumber d) \<and> 0 < d)) \<and>
      (save_badge c \<noteq> None \<longleftrightarrow>
         (\<exists>d. field e ''discountPct'' = Some (JNumber d) \<and> 0 < d))) \<and>
   (\<not> loading s \<and> items s = JArray (map item_json ps) \<longrightarrow>
      (\<exists>v. App numstr dark s = Some v \<and>
           map Some (cards v) = map (article numstr) (map item_json ps)))"
proof (intro conjI allI impI)
  show "article numstr (item_json p) \<noteq> None"
    by (simp add: article_item_json)
  show "price_badge_text numstr (item_json p) \<noteq> None \<longleftrightarrow>
      (\<exists>d. discountPct p = Some d \<and> 0 < d)"
    by (simp add: price_badge_text_def article_item_json positive_number_discount)
  show "heading_badge_text numstr (item_json p) \<noteq> None \<longleftrightarrow>
      (\<exists>d. discountPct p = Some d \<and> 0 < d)"
    by (simp add: heading_badge_text_def article_item_json positive_number_discount)
next
  fix d
  assume d: "discountPct p = Some d \<and> 0 < d"
  then have pos: "is_positive_number (map_option JNumber (discountPct p))"
    by (simp add: is_positive_number_def)
  show "price_badge_text numstr (item_json p) = Some (''-'' @ Number_toString numstr d @ ''%'')"
    using d pos
    by (simp add: price_badge_text_def article_item_json children_text_def child_text_def)
  show "heading_badge_text numstr (item_json p) =
        Some (''Save '' @ Number_toString numstr d @ ''%'')"
    using d pos
    by (simp add: heading_badge_text_def article_item_json children_text_def child_text_def)
next
  fix c
  assume c: "article numstr e = Some c"
  have pos: "is_positive_number (field e ''discountPct'') \<longleftrightarrow>
      (\<exists>d. field e ''discountPct'' = Some (JNumber d) \<and> 0 < d)"
    by (auto simp: is_positive_number_def split: option.splits json.splits)
  from c show "discount_badge (card_price c) \<noteq> None \<longleftrightarrow>
         (\<exists>d. field e ''discountPct'' = Some (JNumber d) \<and> 0 < d)"
    unfolding pos [symmetric]
    by (auto simp: article_def PriceTag_def split: if_splits option.splits json.splits)
  from c show "save_badge c \<noteq> None \<longleftrightarrow>
         (\<exists>d. field e ''discountPct'' = Some (JNumber d) \<and> 0 < d)"
    unfolding pos [symmetric]
    by (auto simp: article_def PriceTag_def split: if_splits option.splits json.splits)
next
  assume a: "\<not> loading s \<and> items s = JArray (map item_json ps)"
  define card_of where "card_of q = the (article numstr (item_json q))" for q
  have card_of: "article numstr (item_json q) = Some (card_of q)" for q
    by (simp add: card_of_def article_item_json)
  have m: "map (article numstr) (map item_json ps) = map (\<lambda>q. Some (card_of q)) ps"
    by (simp add: card_of)
  have t: "those (map (article numstr) (map item_json ps)) = Some (map card_of ps)"
    unfolding m by (rule those_map_Some)
  have "App numstr dark s =
      Some \<lparr>toggle_label = (if dark then ''Light'' else ''Dark''),
            banner = (if truthy_string (error s) then error s else None),
            skeletons = 0,
            cards = map card_of ps,
            total_items = [Txt ''Total items: '', Expr (Some (JNumber (of_nat (length ps))))]\<rparr>"
    using a t by (simp add: App_def items_map_def items_length_def renderable_value_def)
  moreover have "map Some (map card_of ps) = map (article numstr) (map item_json ps)"
    by (simp add: card_of)
  ultimately show "\<exists>v. App numstr dark s = Some v \<and>
           map Some (cards v) = map (article numstr) (map item_json ps)"
    by simp
qed

theorem discount_badges_witness:
  "discountPct (oat_bar (5 / 2) (Some 15)) = Some 15 \<and> (0::rat) < 15 \<and>
   price_badge_text unprinted (item_json (oat_bar (5 / 2) (Some 15))) = Some ''-15%'' \<and>
   heading_badge_text unprinted (item_json (oat_bar (5 / 2) (Some 15))) = Some ''Save 15%'' \<and>
   price_badge_text unprinted (item_json (oat_bar (5 / 2) (Some 0))) = None \<and>
   heading_badge_text unprinted (item_json (oat_bar (5 / 2) (Some 0))) = None \<and>
   price_badge_text unprinted (item_json (oat_bar (5 / 2) None)) = None \<and>
   heading_badge_text unprinted (item_json (oat_bar (5 / 2) None)) = None"
proof -
  have n: "Number_toString unprinted 15 = ''15''"
    by (simp add: Number_toString_def decimal_step decimal_small digit_def)
  have d: "discountPct (oat_bar (5 / 2) (Some 15)) = Some 15 \<and> (0::rat) < 15"
    by (simp add: oat_bar_def)
  note w15 = discount_badges [of unprinted "oat_bar (5 / 2) (Some 15)" JNull initial_state Nil False]
  note w0 = discount_badges [of unprinted "oat_bar (5 / 2) (Some 0)" JNull initial_state Nil False]
  note wn = discount_badges [of unprinted "oat_bar (5 / 2) None" JNull initial_state Nil False]
  from w15 d have shown:
    "price_badge_text unprinted (item_json (oat_bar (5 / 2) (Some 15))) =
       Some (''-'' @ Number_toString unprinted 15 @ ''%'') \<and>
     heading_badge_text unprinted (item_json (oat_bar (5 / 2) (Some 15))) =
       Some (''Save '' @ Number_toString unprinted 15 @ ''%'')"
    by blast
  from w0 have zero:
    "price_badge_text unprinted (item_json (oat_bar (5 / 2) (Some 0))) = None \<and>
     heading_badge_text unprinted (item_json (oat_bar (5 / 2) (Some 0))) = None"
    by (simp add: oat_bar_def)
  from wn have absent:
    "price_badge_text unprinted (item_json (oat_bar (5 / 2) None)) = None \<and>
     heading_badge_text unprinted (item_json (oat_bar (5 / 2) None)) = None"
    by (simp add: oat_bar_def)
  show ?thesis using d shown zero absent by (simp add: n)
qed

text \<open>
  Claim C3 as stated fails for the badge of lines 126 to 130: for a discount of 15 it
  reads \<^verbatim>\<open>Save 15%\<close>, with no leading minus sign.
\<close>

theorem heading_badge_reads_save:
  "heading_badge_text unprinted (item_json (oat_bar (5 / 2) (Some 15))) = Some ''Save 15%'' \<and>
   hd ''Save 15%'' \<noteq> CHR ''-''"
  by code_simp

text \<open>
  Claim C9, as amended. For an item of the declared type with a price of magnitude below
  \<open>10^21\<close> the price span reads a dollar sign and then the amount with exactly two
  fraction digits: the integer nearest to a hundred times the exact binary value of the
  price, the larger one at a tie, with a point before its last two digits.
\<close>

theorem price_two_fraction_digits:
  assumes "\<bar>finalPrice p\<bar> < 10 ^ 21"
  shows "price_text numstr (item_json p) =
           Some (''$'' @ (if finalPrice p < 0 then ''-'' else []) @
                 decimal (hundredths (finalPrice p) div 100) @ ''.'' @
                 [digit (hundredths (finalPrice p) div 10 mod 10),
                  digit (hundredths (finalPrice p) mod 10)]) \<and>
         map_option fraction_digits (price_text numstr (item_json p)) = Some (Some 2) \<and>
         \<bar>finalPrice p\<bar> * 100 - 1 / 2 < of_nat (hundredths (finalPrice p)) \<and>
         of_nat (hundredths (finalPrice p)) \<le> \<bar>finalPrice p\<bar> * 100 + 1 / 2"
proof -
  have span: "price_text numstr (item_json p) = Some (''$'' @ toFixed numstr (finalPrice p) 2)"
    by (simp add: price_text_def article_item_json children_text_def child_text_def)
  show ?thesis
    unfolding span
    using toFixed_2 [OF assms, of numstr] fraction_digits_toFixed_2 [OF assms, of numstr]
      hundredths_nearest [of "finalPrice p"]
    by simp
qed

theorem price_two_fraction_digits_witness:
  "\<bar>finalPrice (oat_bar 9 None)\<bar> < 10 ^ 21 \<and>
   price_text unprinted (item_json (oat_bar 9 None)) = Some ''$9.00'' \<and>
   map_option fraction_digits (price_text unprinted (item_json (oat_bar 9 None))) =
     Some (Some 2)"
proof -
  have h: "hundredths 9 = 900" by code_simp
  have d: "decimal 9 = ''9''" by (simp add: decimal_small digit_def)
  have p: "finalPrice (oat_bar 9 None) = 9" by (simp add: oat_bar_def)
  have a: "\<bar>finalPrice (oat_bar 9 None)\<bar> < 10 ^ 21" by (simp add: p)
  note w = price_two_fraction_digits [OF a, of unprinted]
  have t: "price_text unprinted (item_json (oat_bar 9 None)) = Some ''$9.00''"
    using w [THEN conjunct1] by (simp add: p h d digit_def)
  have f: "map_option fraction_digits (price_text unprinted (item_json (oat_bar 9 None))) =
      Some (Some 2)"
    by (rule w [THEN conjunct2, THEN conjunct1])
  show ?thesis using a t f by blast
qed

text \<open>
  Claim C9 as stated fails at the input 9.995: the number a JSON body gives for it lies
  below 9.995, and the price reads \<^verbatim>\<open>$9.99\<close>.
\<close>

theorem price_9_995_reads_9_99:
  "JSON_number (9995 / 1000) = Some (5626684784446013 / 562949953421312) \<and>
   price_text unprinted (item_json (oat_bar (5626684784446013 / 562949953421312) None)) =
     Some ''$9.99''"
  by code_simp

end
